theory Spec2Isabelle
  imports Main "HOL-Library.Word"
begin

section \<open>The VehicleConnectivity payload schema\<close>

text \<open>
  The proto3 file of package \<open>telemetry.vehicle_connectivity\<close> declares one enum and
  one message. The enum is a datatype; the number the schema assigns to each value is
  the function \<open>ConnectivityEvent_number\<close>. The message is a record with one field
  per declared field; its descriptor (name, field number and type of each declared
  field, in declaration order) is the list \<open>VehicleConnectivity_fields\<close>.
\<close>

datatype ConnectivityEvent = UNKNOWN | CONNECTED | DISCONNECTED

fun ConnectivityEvent_number :: "ConnectivityEvent \<Rightarrow> int" where
  "ConnectivityEvent_number UNKNOWN = 0"
| "ConnectivityEvent_number CONNECTED = 1"
| "ConnectivityEvent_number DISCONNECTED = 2"

text \<open>\<open>google.protobuf.Timestamp\<close>: seconds and nanoseconds.\<close>

record Timestamp =
  seconds :: int
  nanos :: int

record VehicleConnectivity =
  vin :: string
  connection_id :: string
  status :: ConnectivityEvent
  created_at :: "Timestamp option"
  network_interface :: string

datatype field_type = proto_string | proto_enum string | proto_message string

record field_descriptor =
  field_name :: string
  field_number :: nat
  field_kind :: field_type

definition VehicleConnectivity_fields :: "field_descriptor list" where
  "VehicleConnectivity_fields =
     [\<lparr>field_name = ''vin'', field_number = 1, field_kind = proto_string\<rparr>,
      \<lparr>field_name = ''connection_id'', field_number = 2, field_kind = proto_string\<rparr>,
      \<lparr>field_name = ''status'', field_number = 3,
         field_kind = proto_enum ''ConnectivityEvent''\<rparr>,
      \<lparr>field_name = ''created_at'', field_number = 4,
         field_kind = proto_message ''google.protobuf.Timestamp''\<rparr>,
      \<lparr>field_name = ''network_interface'', field_number = 5, field_kind = proto_string\<rparr>]"

section \<open>The OpenTelemetry metrics adapter\<close>

subsection \<open>Labels and attributes\<close>

text \<open>
  \<open>adapter.Labels\<close> is \<open>map[string]string\<close>, a partial map. A Go \<open>range\<close> loop over
  a map visits every entry once, in an order the language leaves unspecified and the
  runtime picks anew for each loop. A function whose body ranges over a label map
  therefore takes, in this embedding, the entries in the order its loop visits them;
  \<open>ranges labels kvs\<close> says that \<open>kvs\<close> is such a visit of \<open>labels\<close>.
\<close>

type_synonym int64 = "64 word"

type_synonym Labels = "string \<rightharpoonup> string"

definition ranges :: "Labels \<Rightarrow> (string \<times> string) list \<Rightarrow> bool" where
  "ranges labels kvs \<longleftrightarrow> distinct (map fst kvs) \<and> map_of kvs = labels"

text \<open>\<open>attribute.String(key, value)\<close> builds one \<open>attribute.KeyValue\<close>.\<close>

datatype KeyValue = attribute_String string string

text \<open>
  \<open>labelsToAttributes\<close> appends one attribute per visited entry to a slice that
  starts empty.
\<close>

fun labelsToAttributes_loop ::
  "KeyValue list \<Rightarrow> (string \<times> string) list \<Rightarrow> KeyValue list" where
  "labelsToAttributes_loop attrs [] = attrs"
| "labelsToAttributes_loop attrs ((key, v) # rest) =
     labelsToAttributes_loop (attrs @ [attribute_String key v]) rest"

definition labelsToAttributes :: "(string \<times> string) list \<Rightarrow> KeyValue list" where
  "labelsToAttributes labels = labelsToAttributes_loop [] labels"

subsection \<open>Gauge\<close>

text \<open>
  The gauge keeps two maps under one mutex: \<open>values\<close> from the serialized label set
  to the current value, and \<open>labels\<close> from the same key to the attributes observed
  with it. Every method holds the lock from entry to return, so each is one atomic
  step on the record. Reading a missing key of a Go map yields the zero value.
\<close>

record Gauge =
  values_map :: "string \<rightharpoonup> int64"
  labels_map :: "string \<rightharpoonup> KeyValue list"

definition NewGauge :: Gauge where
  "NewGauge = \<lparr>values_map = Map.empty, labels_map = Map.empty\<rparr>"

text \<open>
  \<open>labelsKey\<close>: \<open>key := ""\<close>, then \<open>key += k + "=" + v + ";"\<close> for each visited
  entry.
\<close>

fun labelsKey_loop :: "string \<Rightarrow> (string \<times> string) list \<Rightarrow> string" where
  "labelsKey_loop key [] = key"
| "labelsKey_loop key ((k, v) # rest) = labelsKey_loop (key @ k @ ''='' @ v @ '';'') rest"

definition labelsKey :: "(string \<times> string) list \<Rightarrow> string" where
  "labelsKey labels = labelsKey_loop '''' labels"

definition value_at :: "(string \<rightharpoonup> int64) \<Rightarrow> string \<Rightarrow> int64" where
  "value_at m key = (case m key of None \<Rightarrow> 0 | Some v \<Rightarrow> v)"

text \<open>
  \<open>Add\<close>, \<open>Sub\<close> and \<open>Set\<close> call \<open>labelsKey(labels)\<close> and
  \<open>labelsToAttributes(labels)\<close>, two loops over the same map: the first list argument
  is the visit of the former, the second the visit of the latter.
\<close>

definition Gauge_Add ::
  "int64 \<Rightarrow> (string \<times> string) list \<Rightarrow> (string \<times> string) list \<Rightarrow> Gauge \<Rightarrow> Gauge" where
  "Gauge_Add n labels labels' g =
     (let key = labelsKey labels;
          g1 = g\<lparr>values_map := (values_map g)(key \<mapsto> value_at (values_map g) key + n)\<rparr>
      in if labels_map g1 key = None
         then g1\<lparr>labels_map := (labels_map g1)(key \<mapsto> labelsToAttributes labels')\<rparr>
         else g1)"

definition Gauge_Sub ::
  "int64 \<Rightarrow> (string \<times> string) list \<Rightarrow> (string \<times> string) list \<Rightarrow> Gauge \<Rightarrow> Gauge" where
  "Gauge_Sub n labels labels' g =
     (let key = labelsKey labels;
          g1 = g\<lparr>values_map := (values_map g)(key \<mapsto> value_at (values_map g) key - n)\<rparr>
      in if labels_map g1 key = None
         then g1\<lparr>labels_map := (labels_map g1)(key \<mapsto> labelsToAttributes labels')\<rparr>
         else g1)"

definition Gauge_Inc ::
  "(string \<times> string) list \<Rightarrow> (string \<times> string) list \<Rightarrow> Gauge \<Rightarrow> Gauge" where
  "Gauge_Inc labels labels' g = Gauge_Add 1 labels labels' g"

definition Gauge_Set ::
  "int64 \<Rightarrow> (string \<times> string) list \<Rightarrow> (string \<times> string) list \<Rightarrow> Gauge \<Rightarrow> Gauge" where
  "Gauge_Set n labels labels' g =
     (let key = labelsKey labels
      in g\<lparr>values_map := (values_map g)(key \<mapsto> n),
           labels_map := (labels_map g)(key \<mapsto> labelsToAttributes labels')\<rparr>)"

subsection \<open>Counter and Timer\<close>

text \<open>
  \<open>metric.Int64Counter\<close> and \<open>metric.Int64Histogram\<close> are interfaces of the
  OpenTelemetry SDK. An interface value is either nil or carries an implementation of
  its recording method; the implementation is a parameter here, a transformer of
  whatever the SDK keeps (\<open>'w\<close>). Calling a method through a nil interface value
  panics with a nil dereference, which is what \<open>Int64Counter_Add\<close> and
  \<open>Int64Histogram_Record\<close> say.
\<close>

datatype panic = nil_dereference

type_synonym 'w Int64Counter = "(int64 \<Rightarrow> KeyValue list \<Rightarrow> 'w \<Rightarrow> 'w) option"

type_synonym 'w Int64Histogram = "(int64 \<Rightarrow> KeyValue list \<Rightarrow> 'w \<Rightarrow> 'w) option"

definition Int64Counter_Add ::
  "'w Int64Counter \<Rightarrow> int64 \<Rightarrow> KeyValue list \<Rightarrow> 'w \<Rightarrow> panic + 'w" where
  "Int64Counter_Add i n attrs w =
     (case i of None \<Rightarrow> Inl nil_dereference | Some add \<Rightarrow> Inr (add n attrs w))"

definition Int64Histogram_Record ::
  "'w Int64Histogram \<Rightarrow> int64 \<Rightarrow> KeyValue list \<Rightarrow> 'w \<Rightarrow> panic + 'w" where
  "Int64Histogram_Record i n attrs w =
     (case i of None \<Rightarrow> Inl nil_dereference | Some rec \<Rightarrow> Inr (rec n attrs w))"

record 'w Counter =
  counter :: "'w Int64Counter"

record 'w Timer =
  histogram :: "'w Int64Histogram"

text \<open>
  The list argument of \<open>Add\<close>, \<open>Inc\<close> and \<open>Observe\<close> is the visit of the label
  map by the loop of \<open>labelsToAttributes\<close>, which runs only after the nil check.
\<close>

definition Counter_Add ::
  "'w Counter \<Rightarrow> int64 \<Rightarrow> (string \<times> string) list \<Rightarrow> 'w \<Rightarrow> panic + 'w" where
  "Counter_Add c n labels w =
     (if counter c = None then Inr w
      else Int64Counter_Add (counter c) n (labelsToAttributes labels) w)"

definition Counter_Inc ::
  "'w Counter \<Rightarrow> (string \<times> string) list \<Rightarrow> 'w \<Rightarrow> panic + 'w" where
  "Counter_Inc c labels w =
     (if counter c = None then Inr w
      else Int64Counter_Add (counter c) 1 (labelsToAttributes labels) w)"

definition Timer_Observe ::
  "'w Timer \<Rightarrow> int64 \<Rightarrow> (string \<times> string) list \<Rightarrow> 'w \<Rightarrow> panic + 'w" where
  "Timer_Observe t n labels w =
     (if histogram t = None then Inr w
      else Int64Histogram_Record (histogram t) n (labelsToAttributes labels) w)"

subsection \<open>Collector\<close>

text \<open>
  The collector holds a \<open>metric.Meter\<close> and the repository's logger. Both are taken
  as parameters: the meter by the two instrument constructors the collector calls,
  each returning the Go pair (instrument, err); the logger by its \<open>ErrorLog\<close> method,
  a transformer of the log (\<open>'l\<close>). \<open>RegisterTimer\<close> and \<open>RegisterCounter\<close> return
  an interface value holding a pointer to a fresh struct: \<open>Some\<close> of the struct,
  where \<open>None\<close> would be a nil interface.
\<close>

type_synonym error = string

record 'w Meter =
  Int64Histogram :: "string \<Rightarrow> string \<Rightarrow> string \<Rightarrow> 'w Int64Histogram \<times> error option"
  Int64Counter :: "string \<Rightarrow> string \<Rightarrow> 'w Int64Counter \<times> error option"

record 'l Logger =
  ErrorLog :: "string \<Rightarrow> error \<Rightarrow> (string \<times> string) list \<Rightarrow> 'l \<Rightarrow> 'l"

record ('w, 'l) Collector =
  meter :: "'w Meter"
  logger :: "'l Logger"

record CollectorOptions =
  Name :: string
  Help :: string

definition RegisterTimer ::
  "('w, 'l) Collector \<Rightarrow> CollectorOptions \<Rightarrow> 'l \<Rightarrow> 'w Timer option \<times> 'l" where
  "RegisterTimer c options lg =
     (case Int64Histogram (meter c) (Name options) (Help options) ''ms'' of
        (h, Some err) \<Rightarrow>
          (Some \<lparr>histogram = None\<rparr>,
           ErrorLog (logger c) ''otel_timer_registration_failed'' err
             [(''name'', Name options)] lg)
      | (h, None) \<Rightarrow> (Some \<lparr>histogram = h\<rparr>, lg))"

definition RegisterCounter ::
  "('w, 'l) Collector \<Rightarrow> CollectorOptions \<Rightarrow> 'l \<Rightarrow> 'w Counter option \<times> 'l" where
  "RegisterCounter c options lg =
     (case Int64Counter (meter c) (Name options) (Help options) of
        (i, Some err) \<Rightarrow>
          (Some \<lparr>counter = None\<rparr>,
           ErrorLog (logger c) ''otel_counter_registration_failed'' err
             [(''name'', Name options)] lg)
      | (i, None) \<Rightarrow> (Some \<lparr>counter = i\<rparr>, lg))"

text \<open>
  An example collector whose meter fails to build either instrument; the SDK state is
  a list of recorded amounts, the log a list of messages.
\<close>

definition failing_collector :: "(int64 list, string list) Collector" where
  "failing_collector =
     \<lparr>meter = \<lparr>Int64Histogram = (\<lambda>name help unit. (None, Some ''no histogram'')),
               Int64Counter = (\<lambda>name help. (None, Some ''no counter''))\<rparr>,
      logger = \<lparr>ErrorLog = (\<lambda>msg err info lg. lg @ [msg])\<rparr>\<rparr>"

section \<open>The subject-based (NATS) producer\<close>

text \<open>
  The NATS producer itself (package \<open>datastore/nats\<close>: its \<open>Producer\<close> type, its
  publish path and its reliable-ack hook) is not among the sources; only its test file
  and its README are. The definitions of this section are therefore written from the
  spec's producer contract, each marked as such.
\<close>

text \<open>
  Modelled from the spec: the record handed to a producer, of which the absent
  producer reads the identity (the device id), the transaction id, the type tag and
  the payload.
\<close>

record telemetry_record =
  identity :: string
  txid :: string
  type_tag :: string
  payload :: string

text \<open>
  Modelled from the spec: the state of the absent producer that the contract speaks
  of. It is configured with a namespace and with the set of type tags it is
  registered as an ack source for, and it holds the sending end of the channel to the
  ack coordinator, kept here as the list of tuples sent so far, oldest first.
\<close>

record producer =
  namespace :: string
  ack_source_tags :: "string set"
  ack_channel :: "(string \<times> string \<times> string) list"

text \<open>
  Modelled from the spec: the topic name of the absent publish path, \<open>data\<close> if the
  type tag is \<open>V\<close>, else the tag verbatim.
\<close>

definition topic_name :: "string \<Rightarrow> string" where
  "topic_name tag = (if tag = ''V'' then ''data'' else tag)"

text \<open>
  Modelled from the spec: the subject the absent publish path derives,
  \<open><namespace>.<device_id>.<topic_name>\<close>.
\<close>

definition subject :: "producer \<Rightarrow> telemetry_record \<Rightarrow> string" where
  "subject p r = namespace p @ ''.'' @ identity r @ ''.'' @ topic_name (type_tag r)"

text \<open>
  Modelled from the spec: the absent reliable-ack hook, called when the backend
  confirms durable acceptance of a record. The producer forwards the tuple
  (identity, txid, type_tag) to the ack coordinator, but only for type tags it is
  registered as an ack source for.
\<close>

definition process_reliable_ack :: "telemetry_record \<Rightarrow> producer \<Rightarrow> producer" where
  "process_reliable_ack r p =
     (if type_tag r \<in> ack_source_tags p
      then p\<lparr>ack_channel := ack_channel p @ [(identity r, txid r, type_tag r)]\<rparr>
      else p)"

section \<open>Properties\<close>

subsection \<open>Schema\<close>

text \<open>
  C4. The VehicleConnectivity message carries exactly the fields vin, connection_id,
  status, created_at and network_interface (five fields, numbered 1 to 5), and the
  status enum assigns UNKNOWN = 0, CONNECTED = 1, DISCONNECTED = 2 and has no other
  value.
\<close>

theorem VehicleConnectivity_schema:
  "map field_name VehicleConnectivity_fields =
     [''vin'', ''connection_id'', ''status'', ''created_at'', ''network_interface'']
   \<and> set (map field_name VehicleConnectivity_fields) =
     {''vin'', ''connection_id'', ''status'', ''created_at'', ''network_interface''}
   \<and> distinct (map field_name VehicleConnectivity_fields)
   \<and> map field_number VehicleConnectivity_fields = [1, 2, 3, 4, 5]
   \<and> ConnectivityEvent_number UNKNOWN = 0
   \<and> ConnectivityEvent_number CONNECTED = 1
   \<and> ConnectivityEvent_number DISCONNECTED = 2
   \<and> range ConnectivityEvent_number = {0, 1, 2}"
proof -
  have names: "map field_name VehicleConnectivity_fields =
     [''vin'', ''connection_id'', ''status'', ''created_at'', ''network_interface'']"
    by (simp add: VehicleConnectivity_fields_def)
  have numbers: "map field_number VehicleConnectivity_fields = [1, 2, 3, 4, 5]"
    by (simp add: VehicleConnectivity_fields_def)
  have all_values: "range ConnectivityEvent_number = {0, 1, 2}"
  proof
    show "range ConnectivityEvent_number \<subseteq> {0, 1, 2}"
    proof
      fix x assume "x \<in> range ConnectivityEvent_number"
      then obtain e where "x = ConnectivityEvent_number e" by blast
      then show "x \<in> {0, 1, 2}" by (cases e) simp_all
    qed
    have "ConnectivityEvent_number UNKNOWN \<in> range ConnectivityEvent_number"
      and "ConnectivityEvent_number CONNECTED \<in> range ConnectivityEvent_number"
      and "ConnectivityEvent_number DISCONNECTED \<in> range ConnectivityEvent_number"
      by blast+
    then show "{0, 1, 2} \<subseteq> range ConnectivityEvent_number" by simp
  qed
  show ?thesis
    unfolding names numbers all_values by simp
qed

subsection \<open>Subject naming\<close>

text \<open>
  C1. For every record, the subject a subject-based producer publishes to is the
  concatenation namespace, dot, device id, dot, topic name, where the topic name is
  "data" when the record's type tag is "V" and the type tag verbatim otherwise. With
  namespace "tesla_telemetry" and identity "5YJ3E1EA1NF123456", a V record publishes to
  "tesla_telemetry.5YJ3E1EA1NF123456.data" and an alerts record to
  "tesla_telemetry.5YJ3E1EA1NF123456.alerts".
\<close>

theorem subject_formation:
  "subject p r =
     namespace p @ ''.'' @ identity r @ ''.'' @
       (if type_tag r = ''V'' then ''data'' else type_tag r)
   \<and> subject \<lparr>namespace = ''tesla_telemetry'', ack_source_tags = tags, ack_channel = ch\<rparr>
         \<lparr>identity = ''5YJ3E1EA1NF123456'', txid = t, type_tag = ''V'', payload = pl\<rparr> =
       ''tesla_telemetry.5YJ3E1EA1NF123456.data''
   \<and> subject \<lparr>namespace = ''tesla_telemetry'', ack_source_tags = tags, ack_channel = ch\<rparr>
         \<lparr>identity = ''5YJ3E1EA1NF123456'', txid = t, type_tag = ''alerts'', payload = pl\<rparr> =
       ''tesla_telemetry.5YJ3E1EA1NF123456.alerts''"
  by (simp add: subject_def topic_name_def)

subsection \<open>Reliable acknowledgement\<close>

text \<open>
  C2. When the durable-acceptance callback fires for a record,
  \<open>process_reliable_ack\<close> sends the record's (identity, txid, type_tag) tuple to the
  ack channel if and only if the record's type tag is in the set of tags the producer
  is registered as an ack source for; otherwise, and in particular when that set is
  empty, the producer is left as it was and nothing is sent.
\<close>

theorem process_reliable_ack_iff:
  "(ack_channel (process_reliable_ack r p) =
      ack_channel p @ [(identity r, txid r, type_tag r)])
     = (type_tag r \<in> ack_source_tags p)
   \<and> (ack_channel (process_reliable_ack r p) = ack_channel p)
     = (type_tag r \<notin> ack_source_tags p)
   \<and> (process_reliable_ack r p = p) = (type_tag r \<notin> ack_source_tags p)
   \<and> process_reliable_ack r (p\<lparr>ack_source_tags := {}\<rparr>) = p\<lparr>ack_source_tags := {}\<rparr>"
proof -
  have sent: "(ack_channel (process_reliable_ack r p) =
      ack_channel p @ [(identity r, txid r, type_tag r)])
     = (type_tag r \<in> ack_source_tags p)"
    by (simp add: process_reliable_ack_def)
  have kept: "(ack_channel (process_reliable_ack r p) = ack_channel p)
     = (type_tag r \<notin> ack_source_tags p)"
    by (simp add: process_reliable_ack_def)
  have same: "(process_reliable_ack r p = p) = (type_tag r \<notin> ack_source_tags p)"
  proof
    assume "process_reliable_ack r p = p"
    then have "ack_channel (process_reliable_ack r p) = ack_channel p" by simp
    with kept show "type_tag r \<notin> ack_source_tags p" by simp
  next
    assume "type_tag r \<notin> ack_source_tags p"
    then show "process_reliable_ack r p = p" by (simp add: process_reliable_ack_def)
  qed
  have none: "process_reliable_ack r (p\<lparr>ack_source_tags := {}\<rparr>) = p\<lparr>ack_source_tags := {}\<rparr>"
    by (simp add: process_reliable_ack_def)
  from sent kept same none show ?thesis by blast
qed

subsection \<open>Nil-backed instruments\<close>

text \<open>
  C8. Recording on a nil-backed instrument does nothing and does not panic:
  \<open>Counter.Add\<close> and \<open>Counter.Inc\<close> on a counter whose underlying Int64Counter is
  nil, and \<open>Timer.Observe\<close> on a timer whose histogram is nil, return with the SDK
  state unchanged. \<open>RegisterCounter\<close> and \<open>RegisterTimer\<close> never return a nil
  interface, and when the meter reports an error they return exactly such a nil-backed
  instrument.
\<close>

theorem nil_backed_instruments_noop:
  "Counter_Add \<lparr>counter = None\<rparr> n labels w = Inr w
   \<and> Counter_Inc \<lparr>counter = None\<rparr> labels w = Inr w
   \<and> Timer_Observe \<lparr>histogram = None\<rparr> n labels w = Inr w
   \<and> fst (RegisterCounter c options lg) \<noteq> None
   \<and> fst (RegisterTimer c options lg) \<noteq> None
   \<and> (snd (Int64Counter (meter c) (Name options) (Help options)) \<noteq> None \<longrightarrow>
        fst (RegisterCounter c options lg) = Some \<lparr>counter = None\<rparr>)
   \<and> (snd (Int64Histogram (meter c) (Name options) (Help options) ''ms'') \<noteq> None \<longrightarrow>
        fst (RegisterTimer c options lg) = Some \<lparr>histogram = None\<rparr>)"
proof -
  have add: "Counter_Add \<lparr>counter = None\<rparr> n labels w = Inr w"
    by (simp add: Counter_Add_def)
  have inc: "Counter_Inc \<lparr>counter = None\<rparr> labels w = Inr w"
    by (simp add: Counter_Inc_def)
  have obs: "Timer_Observe \<lparr>histogram = None\<rparr> n labels w = Inr w"
    by (simp add: Timer_Observe_def)
  have rc: "fst (RegisterCounter c options lg) \<noteq> None"
    by (simp add: RegisterCounter_def split: prod.splits option.splits)
  have rt: "fst (RegisterTimer c options lg) \<noteq> None"
    by (simp add: RegisterTimer_def split: prod.splits option.splits)
  have rc_err: "snd (Int64Counter (meter c) (Name options) (Help options)) \<noteq> None \<longrightarrow>
        fst (RegisterCounter c options lg) = Some \<lparr>counter = None\<rparr>"
    by (auto simp add: RegisterCounter_def split: prod.splits option.splits)
  have rt_err: "snd (Int64Histogram (meter c) (Name options) (Help options) ''ms'') \<noteq> None \<longrightarrow>
        fst (RegisterTimer c options lg) = Some \<lparr>histogram = None\<rparr>"
    by (auto simp add: RegisterTimer_def split: prod.splits option.splits)
  from add inc obs rc rt rc_err rt_err show ?thesis by blast
qed

theorem nil_backed_instruments_noop_witness:
  "snd (Int64Counter (meter failing_collector) ''c'' ''help'') \<noteq> None
   \<and> snd (Int64Histogram (meter failing_collector) ''t'' ''help'' ''ms'') \<noteq> None
   \<and> fst (RegisterCounter failing_collector \<lparr>Name = ''c'', Help = ''help''\<rparr> []) =
       Some \<lparr>counter = None\<rparr>
   \<and> fst (RegisterTimer failing_collector \<lparr>Name = ''t'', Help = ''help''\<rparr> []) =
       Some \<lparr>histogram = None\<rparr>
   \<and> Counter_Add \<lparr>counter = None\<rparr> 7 [(''record_type'', ''V'')] [1, 2 :: int64] = Inr [1, 2]
   \<and> Counter_Inc \<lparr>counter = None\<rparr> [(''record_type'', ''V'')] [1, 2 :: int64] = Inr [1, 2]
   \<and> Timer_Observe \<lparr>histogram = None\<rparr> 7 [(''record_type'', ''V'')] [1, 2 :: int64] = Inr [1, 2]"
proof -
  have c: "snd (Int64Counter (meter failing_collector) ''c'' ''help'') \<noteq> None"
    by (simp add: failing_collector_def)
  have t: "snd (Int64Histogram (meter failing_collector) ''t'' ''help'' ''ms'') \<noteq> None"
    by (simp add: failing_collector_def)
  note inst = nil_backed_instruments_noop
    [where c = failing_collector and lg = "[]" and w = "[1, 2 :: int64]" and n = 7
       and labels = "[(''record_type'', ''V'')]"]
  from c t inst [where options = "\<lparr>Name = ''c'', Help = ''help''\<rparr>"]
    inst [where options = "\<lparr>Name = ''t'', Help = ''help''\<rparr>"]
  show ?thesis by simp
qed

subsection \<open>Gauge keys\<close>

lemma ranges_Nil: "ranges L [] \<longleftrightarrow> L = Map.empty"
  by (auto simp add: ranges_def)

lemma ranges_length: "ranges L v \<Longrightarrow> length v = card (dom L)"
proof -
  assume r: "ranges L v"
  then have d: "distinct (map fst v)" and L: "map_of v = L"
    by (simp_all add: ranges_def)
  from L have "dom L = set (map fst v)"
    by (simp add: dom_map_of_conv_image_fst [symmetric])
  moreover from d have "card (set (map fst v)) = length (map fst v)"
    by (rule distinct_card)
  ultimately show ?thesis by simp
qed

text \<open>A label map with at most one label has one visit, hence one key.\<close>

lemma ranges_at_most_one:
  assumes "ranges L v1" and "ranges L v2" and "length v1 \<le> 1"
  shows "v2 = v1"
proof (cases v1)
  case Nil
  with assms(1) have "L = Map.empty" by (simp add: ranges_Nil)
  with assms(2) have "map_of v2 = Map.empty" by (simp add: ranges_def)
  then have "v2 = []" by (simp only: map_of_eq_empty_iff)
  with Nil show ?thesis by simp
next
  case (Cons kv rest)
  with assms(3) have v1: "v1 = [kv]" by simp
  obtain k x where kv: "kv = (k, x)" by (cases kv)
  from assms(1) v1 kv have L: "L = [k \<mapsto> x]" by (simp add: ranges_def)
  from assms(1,2) have "length v2 = length v1" by (simp add: ranges_length)
  with v1 obtain kv' where v2: "v2 = [kv']" by (cases v2) auto
  obtain k' x' where kv': "kv' = (k', x')" by (cases kv')
  from assms(2) v2 kv' L have eq: "[k' \<mapsto> x'] = [k \<mapsto> x]" by (simp add: ranges_def)
  then have "dom [k' \<mapsto> x'] = dom [k \<mapsto> x]" by (rule arg_cong)
  then have k: "k' = k" by simp
  with eq have "x' = x" by (simp add: map_upd_eqD1)
  with k v1 v2 kv kv' show ?thesis by simp
qed

text \<open>
  C9. \<open>labelsKey\<close> is not injective: the two distinct label maps {"a": "b;c=d"} and
  {"a": "b", "c": "d"} have visits that serialize to the same key "a=b;c=d;", because
  keys and values are joined with unescaped "=" and ";". Consequently \<open>Add\<close>,
  \<open>Sub\<close> and \<open>Set\<close> called first with the one and then with the other label set
  work on a single entry of the gauge: the additions and subtractions of both
  accumulate in it, and the second \<open>Set\<close> overwrites the value and the attributes
  the first one stored.
\<close>

theorem labelsKey_not_injective:
  "[''a'' \<mapsto> ''b;c=d''] \<noteq> [''a'' \<mapsto> ''b'', ''c'' \<mapsto> ''d'']
   \<and> ranges [''a'' \<mapsto> ''b;c=d''] [(''a'', ''b;c=d'')]
   \<and> ranges [''a'' \<mapsto> ''b'', ''c'' \<mapsto> ''d''] [(''a'', ''b''), (''c'', ''d'')]
   \<and> labelsKey [(''a'', ''b;c=d'')] = ''a=b;c=d;''
   \<and> labelsKey [(''a'', ''b''), (''c'', ''d'')] = ''a=b;c=d;''
   \<and> (\<exists>L1 L2 v1 v2. L1 \<noteq> L2 \<and> ranges L1 v1 \<and> ranges L2 v2 \<and> labelsKey v1 = labelsKey v2)
   \<and> values_map (Gauge_Add m [(''a'', ''b''), (''c'', ''d'')] w2
        (Gauge_Add n [(''a'', ''b;c=d'')] w1 g)) =
      (values_map g)(''a=b;c=d;'' \<mapsto> value_at (values_map g) ''a=b;c=d;'' + n + m)
   \<and> values_map (Gauge_Sub m [(''a'', ''b''), (''c'', ''d'')] w2
        (Gauge_Sub n [(''a'', ''b;c=d'')] w1 g)) =
      (values_map g)(''a=b;c=d;'' \<mapsto> value_at (values_map g) ''a=b;c=d;'' - n - m)
   \<and> Gauge_Set m [(''a'', ''b''), (''c'', ''d'')] w2
        (Gauge_Set n [(''a'', ''b;c=d'')] w1 g) =
      g\<lparr>values_map := (values_map g)(''a=b;c=d;'' \<mapsto> m),
        labels_map := (labels_map g)(''a=b;c=d;'' \<mapsto> labelsToAttributes w2)\<rparr>"
proof -
  have ne: "[''a'' \<mapsto> ''b;c=d''] \<noteq> [''a'' \<mapsto> ''b'', ''c'' \<mapsto> ''d'']"
  proof
    assume "[''a'' \<mapsto> ''b;c=d''] = [''a'' \<mapsto> ''b'', ''c'' \<mapsto> ''d'']"
    then have "[''a'' \<mapsto> ''b;c=d''] ''c'' = [''a'' \<mapsto> ''b'', ''c'' \<mapsto> ''d''] ''c''"
      by simp
    then show False by simp
  qed
  have r1: "ranges [''a'' \<mapsto> ''b;c=d''] [(''a'', ''b;c=d'')]"
    by (simp add: ranges_def)
  have r2: "ranges [''a'' \<mapsto> ''b'', ''c'' \<mapsto> ''d''] [(''a'', ''b''), (''c'', ''d'')]"
    by (simp add: ranges_def) (rule ext, simp)
  have k1: "labelsKey [(''a'', ''b;c=d'')] = ''a=b;c=d;''"
    by (simp add: labelsKey_def)
  have k2: "labelsKey [(''a'', ''b''), (''c'', ''d'')] = ''a=b;c=d;''"
    by (simp add: labelsKey_def)
  have ex: "\<exists>L1 L2 v1 v2. L1 \<noteq> L2 \<and> ranges L1 v1 \<and> ranges L2 v2 \<and> labelsKey v1 = labelsKey v2"
  proof (intro exI conjI)
    show "[''a'' \<mapsto> ''b;c=d''] \<noteq> [''a'' \<mapsto> ''b'', ''c'' \<mapsto> ''d'']" by (rule ne)
    show "ranges [''a'' \<mapsto> ''b;c=d''] [(''a'', ''b;c=d'')]" by (rule r1)
    show "ranges [''a'' \<mapsto> ''b'', ''c'' \<mapsto> ''d''] [(''a'', ''b''), (''c'', ''d'')]"
      by (rule r2)
    show "labelsKey [(''a'', ''b;c=d'')] = labelsKey [(''a'', ''b''), (''c'', ''d'')]"
      by (simp only: k1 k2)
  qed
  have add: "values_map (Gauge_Add m [(''a'', ''b''), (''c'', ''d'')] w2
        (Gauge_Add n [(''a'', ''b;c=d'')] w1 g)) =
      (values_map g)(''a=b;c=d;'' \<mapsto> value_at (values_map g) ''a=b;c=d;'' + n + m)"
    by (simp add: Gauge_Add_def Let_def value_at_def k1 k2)
  have sub: "values_map (Gauge_Sub m [(''a'', ''b''), (''c'', ''d'')] w2
        (Gauge_Sub n [(''a'', ''b;c=d'')] w1 g)) =
      (values_map g)(''a=b;c=d;'' \<mapsto> value_at (values_map g) ''a=b;c=d;'' - n - m)"
    by (simp add: Gauge_Sub_def Let_def value_at_def k1 k2)
  have set: "Gauge_Set m [(''a'', ''b''), (''c'', ''d'')] w2
        (Gauge_Set n [(''a'', ''b;c=d'')] w1 g) =
      g\<lparr>values_map := (values_map g)(''a=b;c=d;'' \<mapsto> m),
        labels_map := (labels_map g)(''a=b;c=d;'' \<mapsto> labelsToAttributes w2)\<rparr>"
    by (simp add: Gauge_Set_def Let_def k1 k2)
  show ?thesis
    by (intro conjI) (rule ne r1 r2 k1 k2 ex add sub set)+
qed

subsection \<open>Gauge arithmetic\<close>

text \<open>
  What holds of the four methods, stated on the key each call computes.
  \<open>Inc\<close> is \<open>Add\<close> of 1. \<open>Add\<close> then \<open>Sub\<close> of the same amount restores the value
  at the key when both calls compute the same key, and leaves the amount standing at
  the key of \<open>Add\<close> when they do not. \<open>Set\<close> stores the amount at the key it
  computes whatever was there, and of two \<open>Set\<close>s on one key the last wins.
\<close>

lemma Gauge_Inc_Add: "Gauge_Inc v w g = Gauge_Add 1 v w g"
  by (simp add: Gauge_Inc_def)

lemma Gauge_Add_Sub_same_key:
  "labelsKey v2 = labelsKey v1 \<Longrightarrow>
   value_at (values_map (Gauge_Sub n v2 w2 (Gauge_Add n v1 w1 g))) (labelsKey v1) =
     value_at (values_map g) (labelsKey v1)"
  by (simp add: Gauge_Add_def Gauge_Sub_def Let_def value_at_def)

lemma Gauge_Add_Sub_other_key:
  "labelsKey v2 \<noteq> labelsKey v1 \<Longrightarrow>
   value_at (values_map (Gauge_Sub n v2 w2 (Gauge_Add n v1 w1 g))) (labelsKey v1) =
     value_at (values_map g) (labelsKey v1) + n"
  by (simp add: Gauge_Add_def Gauge_Sub_def Let_def value_at_def)

lemma Gauge_Add_Sub_one_label:
  assumes "ranges L v1" and "ranges L v2" and "card (dom L) \<le> 1"
  shows "value_at (values_map (Gauge_Sub n v2 w2 (Gauge_Add n v1 w1 g))) (labelsKey v1) =
     value_at (values_map g) (labelsKey v1)"
proof -
  from assms(1,3) have "length v1 \<le> 1" by (simp add: ranges_length)
  with assms(1,2) have "v2 = v1" by (rule ranges_at_most_one)
  then show ?thesis by (simp add: Gauge_Add_Sub_same_key)
qed

lemma Gauge_Set_value: "values_map (Gauge_Set n v w g) (labelsKey v) = Some n"
  by (simp add: Gauge_Set_def Let_def)

lemma Gauge_Set_idempotent: "Gauge_Set n v w (Gauge_Set n v w g) = Gauge_Set n v w g"
  by (simp add: Gauge_Set_def Let_def)

lemma Gauge_Set_last_wins:
  "labelsKey v2 = labelsKey v1 \<Longrightarrow>
   Gauge_Set m v2 w2 (Gauge_Set n v1 w1 g) = Gauge_Set m v2 w2 g"
  by (simp add: Gauge_Set_def Let_def)

text \<open>
  C10. \<open>Add(n, L)\<close> followed by \<open>Sub(n, L)\<close> is meant to restore the value stored
  for \<open>L\<close>. It does not for the label set L = {"a": "1", "b": "2"}: both
  [("a", "1"), ("b", "2")] and [("b", "2"), ("a", "1")] are visits of L; when
  \<open>Add(5, L)\<close> serializes the first and \<open>Sub(5, L)\<close> the second, the new gauge ends
  with 5 under "a=1;b=2;" and -5 under "b=2;a=1;", two entries for one label set,
  neither back at 0.
\<close>

theorem Gauge_Add_Sub_two_labels:
  "ranges [''a'' \<mapsto> ''1'', ''b'' \<mapsto> ''2''] [(''a'', ''1''), (''b'', ''2'')]
   \<and> ranges [''a'' \<mapsto> ''1'', ''b'' \<mapsto> ''2''] [(''b'', ''2''), (''a'', ''1'')]
   \<and> values_map
       (Gauge_Sub 5 [(''b'', ''2''), (''a'', ''1'')] [(''b'', ''2''), (''a'', ''1'')]
         (Gauge_Add 5 [(''a'', ''1''), (''b'', ''2'')] [(''a'', ''1''), (''b'', ''2'')]
            NewGauge)) =
     [''a=1;b=2;'' \<mapsto> 5, ''b=2;a=1;'' \<mapsto> - 5]"
proof -
  have r1: "ranges [''a'' \<mapsto> ''1'', ''b'' \<mapsto> ''2''] [(''a'', ''1''), (''b'', ''2'')]"
    by (simp add: ranges_def) (rule ext, simp)
  have r2: "ranges [''a'' \<mapsto> ''1'', ''b'' \<mapsto> ''2''] [(''b'', ''2''), (''a'', ''1'')]"
    by (simp add: ranges_def)
  have v: "values_map
       (Gauge_Sub 5 [(''b'', ''2''), (''a'', ''1'')] [(''b'', ''2''), (''a'', ''1'')]
         (Gauge_Add 5 [(''a'', ''1''), (''b'', ''2'')] [(''a'', ''1''), (''b'', ''2'')]
            NewGauge)) =
     [''a=1;b=2;'' \<mapsto> 5, ''b=2;a=1;'' \<mapsto> - 5]"
    by (simp add: Gauge_Add_def Gauge_Sub_def Let_def value_at_def NewGauge_def labelsKey_def)
  show ?thesis
    by (intro conjI) (rule r1 r2 v)+
qed

end
